theory Spec2Isabelle
  imports Complex_Main
begin

section \<open>Python values\<close>

text \<open>
  A Python \<open>str\<close> is a sequence of Unicode code points: \<open>len\<close>, slicing, \<open>find\<close> and
  \<open>strip\<close> all count code points. A string is therefore a list of code points, and
  \<open>ustr ''abc''\<close> is the string with the code points of the ASCII literal.
\<close>

type_synonym pystr = "nat list"

abbreviation ustr :: "string \<Rightarrow> pystr" where
  "ustr s \<equiv> map of_char s"

text \<open>
  The values that \<open>json.loads\<close> builds and that the comment dictionaries hold. A \<open>dict\<close>
  is an association list with distinct keys in insertion order. A \<open>float\<close> is kept as the
  decimal text it was read from (\<open>0.0\<close> is \<open>PFloat (ustr ''0.0'')\<close>); the rounding of
  \<open>float()\<close> to binary64 is not modelled.
\<close>

datatype pyval =
    PNone
  | PBool bool
  | PInt int
  | PFloat pystr
  | PStr pystr
  | PList "pyval list"
  | PDict "(pystr \<times> pyval) list"

type_synonym pydict = "(pystr \<times> pyval) list"

text \<open>
  Exceptions, each with the text that \<open>str(e)\<close> returns. The texts are those of
  CPython 3.11. \<open>ServiceError\<close> stands for whatever the remote service raises.
\<close>

datatype exn =
    TypeError pystr
  | KeyError pystr
  | ValueError pystr
  | RecursionError pystr
  | OverflowError pystr
  | UnicodeEncodeError pystr
  | ServiceError pystr

fun str_exn :: "exn \<Rightarrow> pystr" where
  "str_exn (TypeError m) = m"
| "str_exn (KeyError m) = m"
| "str_exn (ValueError m) = m"
| "str_exn (RecursionError m) = m"
| "str_exn (OverflowError m) = m"
| "str_exn (UnicodeEncodeError m) = m"
| "str_exn (ServiceError m) = m"

subsection \<open>Dictionaries\<close>

fun dict_get :: "pydict \<Rightarrow> pystr \<Rightarrow> pyval option" where
  "dict_get [] k = None"
| "dict_get ((k', v) # d) k = (if k' = k then Some v else dict_get d k)"

definition has_key :: "pydict \<Rightarrow> pystr \<Rightarrow> bool" where
  "has_key d k \<longleftrightarrow> dict_get d k \<noteq> None"

text \<open>\<open>d[k] = v\<close>: an existing key keeps its position, a new key goes last.\<close>

fun dict_set :: "pydict \<Rightarrow> pystr \<Rightarrow> pyval \<Rightarrow> pydict" where
  "dict_set [] k v = [(k, v)]"
| "dict_set ((k', v') # d) k v = (if k' = k then (k, v) # d else (k', v') # dict_set d k v)"

subsection \<open>String operations\<close>

text \<open>\<open>str.isspace\<close> on one code point: the characters that \<open>str.strip()\<close> removes.\<close>

definition isspace :: "nat \<Rightarrow> bool" where
  "isspace c \<longleftrightarrow>
     (9 \<le> c \<and> c \<le> 13) \<or> (28 \<le> c \<and> c \<le> 32) \<or> c = 133 \<or> c = 160 \<or> c = 5760 \<or>
     (8192 \<le> c \<and> c \<le> 8202) \<or> c = 8232 \<or> c = 8233 \<or> c = 8239 \<or> c = 8287 \<or> c = 12288"

definition lstrip :: "pystr \<Rightarrow> pystr" where
  "lstrip s = dropWhile isspace s"

definition rstrip :: "pystr \<Rightarrow> pystr" where
  "rstrip s = rev (dropWhile isspace (rev s))"

definition strip :: "pystr \<Rightarrow> pystr" where
  "strip s = rstrip (lstrip s)"

definition startswith :: "pystr \<Rightarrow> pystr \<Rightarrow> bool" where
  "startswith s p \<longleftrightarrow> take (length p) s = p"

definition endswith :: "pystr \<Rightarrow> pystr \<Rightarrow> bool" where
  "endswith s p \<longleftrightarrow> length p \<le> length s \<and> drop (length s - length p) s = p"

text \<open>\<open>sub in s\<close> for strings.\<close>

fun contains_str :: "pystr \<Rightarrow> pystr \<Rightarrow> bool" where
  "contains_str [] sub = (sub = [])"
| "contains_str (c # cs) sub = (startswith (c # cs) sub \<or> contains_str cs sub)"

text \<open>\<open>s.find(c)\<close> and \<open>s.rfind(c)\<close> for a single character: an index, or -1.\<close>

fun find :: "pystr \<Rightarrow> nat \<Rightarrow> int" where
  "find [] c = -1"
| "find (x # xs) c = (if x = c then 0 else (let i = find xs c in if i < 0 then -1 else i + 1))"

definition rfind :: "pystr \<Rightarrow> nat \<Rightarrow> int" where
  "rfind s c = (let i = find (rev s) c in if i < 0 then -1 else int (length s) - 1 - i)"

text \<open>\<open>s[i:j]\<close> for indices that are not negative.\<close>

definition slice :: "pystr \<Rightarrow> int \<Rightarrow> int \<Rightarrow> pystr" where
  "slice s i j = take (nat j - nat i) (drop (nat i) s)"

text \<open>
  \<open>str.lower\<close> restricted to the ASCII letters. The full Unicode mapping sends no character
  outside \<open>A-Z\<close> to one of the letters of \<open>quota\<close>, so the test
  \<open>"quota" in str(e).lower()\<close> is the same under both.
\<close>

definition lower :: "pystr \<Rightarrow> pystr" where
  "lower s = map (\<lambda>c. if 65 \<le> c \<and> c \<le> 90 then c + 32 else c) s"

text \<open>\<open>str(n)\<close> for an integer: its decimal digits.\<close>

function str_nat :: "nat \<Rightarrow> pystr" where
  "str_nat n = (if n < 10 then [48 + n] else str_nat (n div 10) @ [48 + n mod 10])"
  by pat_completeness auto
termination
  by (relation "measure id") auto

definition str_int :: "int \<Rightarrow> pystr" where
  "str_int i = (if i < 0 then 45 # str_nat (nat (- i)) else str_nat (nat i))"

section \<open>The environment\<close>

text \<open>
  What the program meets outside its own code is a parameter of the model:
  \<^item> \<open>generate_content\<close>: the remote service. Given the number of calls made before and
    the comment text that the prompt is built from, it raises or returns the response
    text (lines 104 to 113).
  \<^item> \<open>uniform\<close>: the results of the draws of \<open>random.uniform(0.5, 1.5)\<close>, in order.
  \<^item> \<open>max_str_digits\<close>: the limit of the interpreter on the digits of an integer read from
    a string (4300 by default, 0 for no limit, never between 1 and 639).
  \<^item> \<open>max_depth\<close>: the number of nested arrays and objects that the decoder can open
    before the interpreter raises \<open>RecursionError\<close>.
  \<^item> \<open>print_error\<close>: for a line written with \<open>print\<close>, \<open>None\<close> when standard output
    takes it, else the text of the \<open>UnicodeEncodeError\<close> that its encoding raises.
  \<^item> \<open>sleep_error\<close>: for a delay that is not negative, \<open>None\<close> when \<open>time.sleep\<close>
    accepts it, else the exception that it raises on this platform for a delay beyond
    the range of its clock.
\<close>

record env =
  generate_content :: "nat \<Rightarrow> pyval \<Rightarrow> exn + pystr"
  uniform :: "nat \<Rightarrow> real"
  max_str_digits :: nat
  max_depth :: nat
  print_error :: "pystr \<Rightarrow> pystr option"
  sleep_error :: "real \<Rightarrow> exn option"

text \<open>
  \<open>print(line)\<close>. A line of ASCII characters is written whatever the encoding of standard
  output is; failures of the stream itself are not modelled.
\<close>

definition ascii :: "pystr \<Rightarrow> bool" where
  "ascii s \<longleftrightarrow> list_all (\<lambda>c. c < 128) s"

definition py_print :: "env \<Rightarrow> pystr \<Rightarrow> exn + unit" where
  "py_print e line =
     (if ascii line then Inr ()
      else case print_error e line of None \<Rightarrow> Inr () | Some m \<Rightarrow> Inl (UnicodeEncodeError m))"

section \<open>The JSON decoder\<close>

text \<open>
  \<open>json.loads\<close> is the decoder of the Python standard library. It is modelled by its
  grammar: a tokenizer (whitespace \<open>[ \t\n\r]*\<close> between tokens, string literals in strict
  mode, the number pattern \<open>-?(0|[1-9][0-9]*)(\.[0-9]+)?([eE][-+]?[0-9]+)?\<close>, the constants
  \<open>null true false NaN Infinity -Infinity\<close>) and a pushdown recogniser for values, arrays
  and objects that reads the tokens in order. The decoder fails in three ways, and the
  first failure from the left decides: \<open>JSONDecodeError\<close> for a text outside the grammar,
  \<open>ValueError\<close> for an integer with more digits than \<open>max_str_digits\<close> where a value is
  expected, and \<open>RecursionError\<close> for an array or object opened at a depth of
  \<open>max_depth\<close>. The tokenizer stops at the first token it cannot read (\<open>TInvalid\<close>) and
  at the first integer that is too long (\<open>TBigInt\<close> with its number of digits).
\<close>

datatype token =
    TLBrace | TRBrace | TLBrack | TRBrack | TComma | TColon
  | TScalar pyval
  | TBigInt nat
  | TInvalid

definition json_ws :: "nat \<Rightarrow> bool" where
  "json_ws c \<longleftrightarrow> c = 32 \<or> c = 9 \<or> c = 10 \<or> c = 13"

definition is_digit :: "nat \<Rightarrow> bool" where
  "is_digit c \<longleftrightarrow> 48 \<le> c \<and> c \<le> 57"

definition hexval :: "nat \<Rightarrow> nat option" where
  "hexval c =
     (if 48 \<le> c \<and> c \<le> 57 then Some (c - 48)
      else if 97 \<le> c \<and> c \<le> 102 then Some (c - 87)
      else if 65 \<le> c \<and> c \<le> 70 then Some (c - 55)
      else None)"

text \<open>The four hexadecimal digits of a \<open>\uXXXX\<close> escape.\<close>

fun hex4 :: "pystr \<Rightarrow> nat option" where
  "hex4 (a # b # c # d # rest) =
     (case (hexval a, hexval b, hexval c, hexval d) of
        (Some a', Some b', Some c', Some d') \<Rightarrow> Some (((a' * 16 + b') * 16 + c') * 16 + d')
      | _ \<Rightarrow> None)"
| "hex4 _ = None"

definition unescape :: "nat \<Rightarrow> nat option" where
  \<open>unescape e =
     (if e = of_char CHR ''"'' then Some 34
      else if e = 92 then Some 92
      else if e = of_char CHR ''/'' then Some 47
      else if e = of_char CHR ''b'' then Some 8
      else if e = of_char CHR ''f'' then Some 12
      else if e = of_char CHR ''n'' then Some 10
      else if e = of_char CHR ''r'' then Some 13
      else if e = of_char CHR ''t'' then Some 9
      else None)\<close>

definition cons_str :: "nat \<Rightarrow> (pystr \<times> pystr) option \<Rightarrow> (pystr \<times> pystr) option" where
  "cons_str c r = (case r of None \<Rightarrow> None | Some (s, rest) \<Rightarrow> Some (c # s, rest))"

text \<open>
  The body of a string literal, after the opening quote: the decoded string and the text
  after the closing quote. A high surrogate escape directly followed by a low surrogate
  escape is one code point.
\<close>

fun scanstring :: "pystr \<Rightarrow> (pystr \<times> pystr) option" where
  "scanstring [] = None"
| "scanstring (c # cs) =
     (if c = 34 then Some ([], cs)
      else if c = 92 then
        (case cs of
           [] \<Rightarrow> None
         | e # r \<Rightarrow>
             if e = 117 then
               (case hex4 r of
                  None \<Rightarrow> None
                | Some uni \<Rightarrow>
                    if 55296 \<le> uni \<and> uni \<le> 56319 \<and> take 2 (drop 4 r) = [92, 117] then
                      (case hex4 (drop 6 r) of
                         None \<Rightarrow> None
                       | Some uni2 \<Rightarrow>
                           if 56320 \<le> uni2 \<and> uni2 \<le> 57343
                           then cons_str (65536 + ((uni - 55296) * 1024 + (uni2 - 56320)))
                                  (scanstring (drop 10 r))
                           else cons_str uni (scanstring (drop 4 r)))
                    else cons_str uni (scanstring (drop 4 r)))
             else
               (case unescape e of
                  None \<Rightarrow> None
                | Some x \<Rightarrow> cons_str x (scanstring r)))
      else if c < 32 then None
      else cons_str c (scanstring cs))"

definition digits_val :: "pystr \<Rightarrow> int" where
  "digits_val ds = foldl (\<lambda>a d. 10 * a + (int d - 48)) 0 ds"

text \<open>The three groups of the number pattern: each returns the matched text and the rest.\<close>

definition int_part :: "pystr \<Rightarrow> (pystr \<times> pystr) option" where
  "int_part s =
     (case s of
        [] \<Rightarrow> None
      | c # cs \<Rightarrow>
          if c = 48 then Some ([c], cs)
          else if is_digit c then Some (takeWhile is_digit s, dropWhile is_digit s)
          else None)"

definition frac_part :: "pystr \<Rightarrow> pystr \<times> pystr" where
  "frac_part s =
     (case s of
        c # d # r \<Rightarrow>
          if c = 46 \<and> is_digit d then (c # takeWhile is_digit (d # r), dropWhile is_digit (d # r))
          else ([], s)
      | _ \<Rightarrow> ([], s))"

definition exp_part :: "pystr \<Rightarrow> pystr \<times> pystr" where
  "exp_part s =
     (case s of
        [] \<Rightarrow> ([], s)
      | e # r \<Rightarrow>
          if e = 101 \<or> e = 69 then
            (let sign = (case r of [] \<Rightarrow> [] | x # _ \<Rightarrow> if x = 45 \<or> x = 43 then [x] else []);
                 r' = drop (length sign) r
             in case r' of
                  [] \<Rightarrow> ([], s)
                | d # _ \<Rightarrow>
                    if is_digit d then (e # sign @ takeWhile is_digit r', dropWhile is_digit r')
                    else ([], s))
          else ([], s))"

definition match_number :: "pystr \<Rightarrow> (pyval \<times> pystr) option" where
  "match_number s =
     (let neg = (case s of [] \<Rightarrow> False | c # _ \<Rightarrow> c = 45);
          s1 = (if neg then tl s else s)
      in case int_part s1 of
           None \<Rightarrow> None
         | Some (ip, s2) \<Rightarrow>
             (case frac_part s2 of
                (fp, s3) \<Rightarrow>
                  (case exp_part s3 of
                     (ep, s4) \<Rightarrow>
                       if fp = [] \<and> ep = []
                       then Some (PInt (if neg then - digits_val ip else digits_val ip), s4)
                       else Some (PFloat ((if neg then [45] else []) @ ip @ fp @ ep), s4))))"

text \<open>
  A scalar that is not a string: the constants first, then the number pattern, then the
  three names of the non-finite floats, in the order in which the scanner tries them.
\<close>

definition scan_scalar :: "pystr \<Rightarrow> (pyval \<times> pystr) option" where
  "scan_scalar s =
     (if startswith s (ustr ''null'') then Some (PNone, drop 4 s)
      else if startswith s (ustr ''true'') then Some (PBool True, drop 4 s)
      else if startswith s (ustr ''false'') then Some (PBool False, drop 5 s)
      else (case match_number s of
              Some r \<Rightarrow> Some r
            | None \<Rightarrow>
                if startswith s (ustr ''NaN'') then Some (PFloat (ustr ''NaN''), drop 3 s)
                else if startswith s (ustr ''Infinity'') then Some (PFloat (ustr ''Infinity''), drop 8 s)
                else if startswith s (ustr ''-Infinity'') then Some (PFloat (ustr ''-Infinity''), drop 9 s)
                else None))"

text \<open>
  The tokenizer. A string literal or a scalar is followed by the tokens of the text after
  it, so the recursion is on a shorter text; the lemmas below say so.
\<close>

lemma cons_str_Some:
  "cons_str c r = Some (s, rest) \<Longrightarrow> \<exists>s'. r = Some (s', rest) \<and> s = c # s'"
  by (auto simp: cons_str_def split: option.splits)

lemma scanstring_shorter: "scanstring cs = Some (s, rest) \<Longrightarrow> length rest < length cs"
proof (induction "length cs" arbitrary: cs s rest rule: less_induct)
  case less
  have IH: "\<And>y s'. scanstring y = Some (s', rest) \<Longrightarrow> length y < length cs \<Longrightarrow>
                 length rest < length cs"
    using less.hyps by fastforce
  show ?case using less.prems
    apply (cases cs)
     apply simp
    apply (simp split: if_splits list.splits option.splits)
         apply (auto dest!: cons_str_Some)
       apply (drule IH; simp)+
    done
qed

lemma int_part_shorter: "int_part s = Some (ip, rest) \<Longrightarrow> length rest < length s"
  apply (auto simp: int_part_def split: list.splits if_splits)
  by (metis length_dropWhile_le le_imp_less_Suc)

lemma frac_part_shorter: "frac_part s = (fp, rest) \<Longrightarrow> length rest \<le> length s"
  apply (auto simp: frac_part_def split: list.splits if_splits)
  by (meson le_SucI length_dropWhile_le)

lemma exp_part_shorter: "exp_part s = (ep, rest) \<Longrightarrow> length rest \<le> length s"
  apply (auto simp: exp_part_def Let_def split: list.splits if_splits)
      apply (metis le_SucI length_dropWhile_le)+
  done

lemma match_number_shorter: "match_number s = Some (v, rest) \<Longrightarrow> length rest < length s"
  by (auto simp: match_number_def Let_def split: option.splits prod.splits if_splits list.splits
      dest!: int_part_shorter frac_part_shorter exp_part_shorter)

lemma startswith_nonempty: "startswith s (p # ps) \<Longrightarrow> s \<noteq> []"
  by (auto simp: startswith_def)

lemma scan_scalar_shorter: "scan_scalar s = Some (v, rest) \<Longrightarrow> length rest < length s"
  by (auto simp: scan_scalar_def split: if_splits option.splits
      dest: match_number_shorter dest!: startswith_nonempty)

text \<open>
  The digits of an integer literal are what the scanner consumed, without the sign.
\<close>

definition int_digits :: "pystr \<Rightarrow> pystr \<Rightarrow> nat" where
  "int_digits s rest =
     length s - length rest - (case s of [] \<Rightarrow> 0 | c # _ \<Rightarrow> if c = 45 then 1 else 0)"

definition exceeds_limit :: "nat \<Rightarrow> pyval \<Rightarrow> nat \<Rightarrow> bool" where
  "exceeds_limit md v n \<longleftrightarrow> (case v of PInt i \<Rightarrow> 0 < md \<and> md < n | _ \<Rightarrow> False)"

function tokenize :: "nat \<Rightarrow> pystr \<Rightarrow> token list" where
  "tokenize md [] = []"
| "tokenize md (c # cs) =
     (if json_ws c then tokenize md cs
      else if c = 123 then TLBrace # tokenize md cs
      else if c = 125 then TRBrace # tokenize md cs
      else if c = 91 then TLBrack # tokenize md cs
      else if c = 93 then TRBrack # tokenize md cs
      else if c = 44 then TComma # tokenize md cs
      else if c = 58 then TColon # tokenize md cs
      else if c = 34 then
        (case scanstring cs of
           None \<Rightarrow> [TInvalid]
         | Some (s, rest) \<Rightarrow> TScalar (PStr s) # tokenize md rest)
      else
        (case scan_scalar (c # cs) of
           None \<Rightarrow> [TInvalid]
         | Some (v, rest) \<Rightarrow>
             if exceeds_limit md v (int_digits (c # cs) rest)
             then [TBigInt (int_digits (c # cs) rest)]
             else TScalar v # tokenize md rest))"
  by pat_completeness auto
termination
  by (relation "measure (\<lambda>(md, s). length s)")
     (auto dest: scanstring_shorter scan_scalar_shorter)

text \<open>
  The recogniser reads the tokens from left to right with a stack of the containers that
  are open. \<open>FList vs\<close> is an array with the elements \<open>vs\<close> read so far; \<open>FDict ps k\<close>
  is an object with the pairs \<open>ps\<close> read so far and the key \<open>k\<close> whose value is being
  read. A key that occurs twice keeps its first position and its last value, as
  \<open>dict(pairs)\<close> does. Only where a value may start does the scanner read a number or
  open a container, so only there can it raise something else than \<open>JSONDecodeError\<close>.
\<close>

datatype failure = JSONDecodeError | Other exn

datatype frame = FList "pyval list" | FDict pydict pystr

datatype pstate =
    ExpValue "frame list"
  | ArrStart "frame list"
  | ObjStart "frame list"
  | ExpKey pydict "frame list"
  | ExpColon pydict pystr "frame list"
  | AfterValue pyval "frame list"

definition recursion_error :: "string \<Rightarrow> failure" where
  "recursion_error kind =
     Other (RecursionError (ustr ''maximum recursion depth exceeded while decoding a JSON ''
              @ ustr kind @ ustr '' from a unicode string''))"

definition digits_error :: "nat \<Rightarrow> nat \<Rightarrow> failure" where
  "digits_error md n =
     Other (ValueError (ustr ''Exceeds the limit ('' @ str_nat md
              @ ustr '' digits) for integer string conversion: value has '' @ str_nat n
              @ ustr '' digits; use sys.set_int_max_str_digits() to increase the limit''))"

fun begin_value :: "nat \<Rightarrow> nat \<Rightarrow> frame list \<Rightarrow> token \<Rightarrow> failure + pstate" where
  "begin_value md depth stk (TScalar v) = Inr (AfterValue v stk)"
| "begin_value md depth stk TLBrack =
     (if length stk < depth then Inr (ArrStart stk) else Inl (recursion_error ''array''))"
| "begin_value md depth stk TLBrace =
     (if length stk < depth then Inr (ObjStart stk) else Inl (recursion_error ''object''))"
| "begin_value md depth stk (TBigInt n) = Inl (digits_error md n)"
| "begin_value md depth stk _ = Inl JSONDecodeError"

fun expect_key :: "pydict \<Rightarrow> frame list \<Rightarrow> token \<Rightarrow> failure + pstate" where
  "expect_key ps stk (TScalar (PStr k)) = Inr (ExpColon ps k stk)"
| "expect_key ps stk _ = Inl JSONDecodeError"

fun step :: "nat \<Rightarrow> nat \<Rightarrow> pstate \<Rightarrow> token \<Rightarrow> failure + pstate" where
  "step md depth (ExpValue stk) t = begin_value md depth stk t"
| "step md depth (ArrStart stk) t =
     (if t = TRBrack then Inr (AfterValue (PList []) stk)
      else begin_value md depth (FList [] # stk) t)"
| "step md depth (ObjStart stk) t =
     (if t = TRBrace then Inr (AfterValue (PDict []) stk) else expect_key [] stk t)"
| "step md depth (ExpKey ps stk) t = expect_key ps stk t"
| "step md depth (ExpColon ps k stk) t =
     (if t = TColon then Inr (ExpValue (FDict ps k # stk)) else Inl JSONDecodeError)"
| "step md depth (AfterValue v []) t = Inl JSONDecodeError"
| "step md depth (AfterValue v (FList vs # stk)) t =
     (if t = TComma then Inr (ExpValue (FList (vs @ [v]) # stk))
      else if t = TRBrack then Inr (AfterValue (PList (vs @ [v])) stk)
      else Inl JSONDecodeError)"
| "step md depth (AfterValue v (FDict ps k # stk)) t =
     (if t = TComma then Inr (ExpKey (dict_set ps k v) stk)
      else if t = TRBrace then Inr (AfterValue (PDict (dict_set ps k v)) stk)
      else Inl JSONDecodeError)"

fun run_tokens :: "nat \<Rightarrow> nat \<Rightarrow> pstate \<Rightarrow> token list \<Rightarrow> failure + pstate" where
  "run_tokens md depth st [] = Inr st"
| "run_tokens md depth st (t # ts) =
     (case step md depth st t of Inl f \<Rightarrow> Inl f | Inr st' \<Rightarrow> run_tokens md depth st' ts)"

definition json_loads :: "env \<Rightarrow> pystr \<Rightarrow> failure + pyval" where
  "json_loads e s =
     (case run_tokens (max_str_digits e) (max_depth e) (ExpValue [])
             (tokenize (max_str_digits e) s) of
        Inl f \<Rightarrow> Inl f
      | Inr (AfterValue v []) \<Rightarrow> Inr v
      | Inr _ \<Rightarrow> Inl JSONDecodeError)"

section \<open>The sentiment analyzer\<close>

subsection \<open>Interpreting the response text\<close>

text \<open>\<open>_create_default_result\<close> and \<open>_get_default_value\<close>.\<close>

definition create_default_result :: "pyval" where
  "create_default_result =
     PDict [(ustr ''sentiment'', PStr (ustr ''unknown'')),
            (ustr ''score'', PFloat (ustr ''0.0'')),
            (ustr ''key_phrases'', PList []),
            (ustr ''topics'', PList []),
            (ustr ''emotional_tone'', PList [])]"

definition get_default_value :: "pystr \<Rightarrow> pyval" where
  "get_default_value field =
     (case create_default_result of
        PDict defaults \<Rightarrow> (case dict_get defaults field of Some v \<Rightarrow> v | None \<Rightarrow> PNone)
      | _ \<Rightarrow> PNone)"

text \<open>The record that the handler of \<open>analyze_comment\<close> returns for an exception.\<close>

definition error_result :: "exn \<Rightarrow> pyval" where
  "error_result e =
     PDict [(ustr ''sentiment'', PStr (ustr ''error'')),
            (ustr ''score'', PFloat (ustr ''0.0'')),
            (ustr ''key_phrases'', PList []),
            (ustr ''topics'', PList []),
            (ustr ''emotional_tone'', PList []),
            (ustr ''error'', PStr (str_exn e))]"

definition required_fields :: "pystr list" where
  "required_fields =
     [ustr ''sentiment'', ustr ''score'', ustr ''key_phrases'', ustr ''topics'',
      ustr ''emotional_tone'']"

text \<open>
  \<open>field in result\<close>, \<open>result[field] = v\<close> and \<open>result[field]\<close> for a string \<open>field\<close>.
  What they do depends on the type of \<open>result\<close>: a key test on a dict, an element test on
  a list, a substring test on a string, and a \<open>TypeError\<close> otherwise. \<open>quoted s\<close> is
  \<open>s\<close> between single quotes, as the messages print a type name.
\<close>

definition quoted :: "string \<Rightarrow> pystr" where
  "quoted s = [39] @ ustr s @ [39]"

definition type_name :: "pyval \<Rightarrow> string" where
  "type_name v =
     (case v of PNone \<Rightarrow> ''NoneType'' | PBool b \<Rightarrow> ''bool'' | PInt i \<Rightarrow> ''int''
      | PFloat f \<Rightarrow> ''float'' | PStr s \<Rightarrow> ''str'' | PList xs \<Rightarrow> ''list''
      | PDict d \<Rightarrow> ''dict'')"

fun py_contains :: "pyval \<Rightarrow> pystr \<Rightarrow> exn + bool" where
  "py_contains (PDict d) field = Inr (has_key d field)"
| "py_contains (PList xs) field = Inr (PStr field \<in> set xs)"
| "py_contains (PStr s) field = Inr (contains_str s field)"
| "py_contains v field =
     Inl (TypeError (ustr ''argument of type '' @ quoted (type_name v) @ ustr '' is not iterable''))"

fun py_setitem :: "pyval \<Rightarrow> pystr \<Rightarrow> pyval \<Rightarrow> exn + pyval" where
  "py_setitem (PDict d) field v = Inr (PDict (dict_set d field v))"
| "py_setitem (PList xs) field v =
     Inl (TypeError (ustr ''list indices must be integers or slices, not str''))"
| "py_setitem r field v =
     Inl (TypeError (quoted (type_name r) @ ustr '' object does not support item assignment''))"

fun py_getitem :: "pyval \<Rightarrow> pystr \<Rightarrow> exn + pyval" where
  "py_getitem (PDict d) field =
     (case dict_get d field of
        Some v \<Rightarrow> Inr v
      | None \<Rightarrow> Inl (KeyError ([39] @ field @ [39])))"
| "py_getitem (PList xs) field =
     Inl (TypeError (ustr ''list indices must be integers or slices, not str''))"
| "py_getitem (PStr s) field =
     Inl (TypeError (ustr ''string indices must be integers, not '' @ quoted ''str''))"
| "py_getitem v field =
     Inl (TypeError (quoted (type_name v) @ ustr '' object is not subscriptable''))"

text \<open>Lines 116 to 126: trimming and removing the markers of a fenced block.\<close>

definition clean_response :: "pystr \<Rightarrow> pystr" where
  "clean_response response_text =
     (let t = strip response_text;
          t = (if startswith t (ustr ''```json'') then drop 7 t else t);
          t = (if startswith t (ustr ''```'') then drop 3 t else t);
          t = (if endswith t (ustr ''```'') then take (length t - 3) t else t)
      in strip t)"

text \<open>
  Lines 129 to 148: the whole text as JSON, else the text from the first \<open>{\<close> to the last
  \<open>}\<close>. Only \<open>JSONDecodeError\<close> is caught here; any other exception of the decoder or of
  \<open>print\<close> leaves the block.
\<close>

definition extract_result :: "env \<Rightarrow> pystr \<Rightarrow> exn + pyval" where
  "extract_result e response_text =
     (case json_loads e response_text of
        Inr result \<Rightarrow> Inr result
      | Inl (Other x) \<Rightarrow> Inl x
      | Inl JSONDecodeError \<Rightarrow>
          (let start_idx = find response_text 123;
               end_idx = rfind response_text 125 + 1
           in if start_idx \<ge> 0 \<and> end_idx > start_idx then
                (let json_str = slice response_text start_idx end_idx in
                 case json_loads e json_str of
                   Inr result \<Rightarrow> Inr result
                 | Inl (Other x) \<Rightarrow> Inl x
                 | Inl JSONDecodeError \<Rightarrow>
                     (case py_print e (ustr ''Failed to parse JSON from: '' @ json_str) of
                        Inl x \<Rightarrow> Inl x
                      | Inr u \<Rightarrow> Inr create_default_result))
              else
                (case py_print e (ustr ''No JSON found in response: '' @ take 100 response_text
                                   @ ustr ''...'') of
                   Inl x \<Rightarrow> Inl x
                 | Inr u \<Rightarrow> Inr create_default_result)))"

text \<open>Lines 151 to 154: the loop over the required fields.\<close>

fun fill_required :: "pystr list \<Rightarrow> pyval \<Rightarrow> exn + pyval" where
  "fill_required [] result = Inr result"
| "fill_required (field # remaining) result =
     (case py_contains result field of
        Inl e \<Rightarrow> Inl e
      | Inr True \<Rightarrow> fill_required remaining result
      | Inr False \<Rightarrow>
          (case py_setitem result field (get_default_value field) of
             Inl e \<Rightarrow> Inl e
           | Inr result' \<Rightarrow> fill_required remaining result'))"

text \<open>
  The part of the \<open>try\<close> block after the response text is known (lines 116 to 156), the
  handler of lines 157 to 166, whose \<open>print\<close> can raise in its turn, and the two
  together: the Response Interpreter.
\<close>

definition parse_response :: "env \<Rightarrow> pystr \<Rightarrow> exn + pyval" where
  "parse_response e response_text =
     (case extract_result e (clean_response response_text) of
        Inl x \<Rightarrow> Inl x
      | Inr result \<Rightarrow> fill_required required_fields result)"

definition handle_error :: "env \<Rightarrow> exn \<Rightarrow> exn + pyval" where
  "handle_error e x =
     (case py_print e (ustr ''Error analyzing comment: '' @ str_exn x) of
        Inl x' \<Rightarrow> Inl x'
      | Inr u \<Rightarrow> Inr (error_result x))"

definition interpret_response :: "env \<Rightarrow> pystr \<Rightarrow> exn + pyval" where
  "interpret_response e response_text =
     (case parse_response e response_text of
        Inl x \<Rightarrow> handle_error e x
      | Inr result \<Rightarrow> Inr result)"

subsection \<open>The world outside\<close>

text \<open>
  The comment dictionaries live in a store: \<open>heap w ! a\<close> is the dictionary at address
  \<open>a\<close>, and a list of comments is a list of addresses. The world also counts the calls of
  \<open>generate_content\<close> and the draws of \<open>random.uniform\<close>, and records the arguments of
  \<open>time.sleep\<close>. Delays are real numbers: the rounding of binary floating point, its
  infinities and NaN are not modelled. A function that can raise returns the world
  it leaves behind in both cases.
\<close>

record world =
  heap :: "pydict list"
  calls :: nat
  draws :: nat
  slept :: "real list"

definition sleep :: "env \<Rightarrow> real \<Rightarrow> world \<Rightarrow> exn + world" where
  "sleep e secs w =
     (if secs < 0 then Inl (ValueError (ustr ''sleep length must be non-negative''))
      else case sleep_error e secs of
             Some x \<Rightarrow> Inl x
           | None \<Rightarrow> Inr (w\<lparr>slept := slept w @ [secs]\<rparr>))"

subsection \<open>One comment\<close>

text \<open>
  Lines 75 and 76, before the \<open>try\<close> block: \<open>len\<close> and the truncation. They raise for a
  text that has no length, and for a list or dict of more than 1000 entries.
\<close>

fun truncate_text :: "pyval \<Rightarrow> exn + pyval" where
  "truncate_text (PStr s) =
     Inr (PStr (if length s > 1000 then take 997 s @ ustr ''...'' else s))"
| \<open>truncate_text (PList xs) =
     (if length xs > 1000
      then Inl (TypeError (ustr ''can only concatenate list (not "str") to list''))
      else Inr (PList xs))\<close>
| "truncate_text (PDict d) =
     (if length d > 1000 then Inl (TypeError (ustr ''unhashable type: '' @ quoted ''slice''))
      else Inr (PDict d))"
| "truncate_text v =
     Inl (TypeError (ustr ''object of type '' @ quoted (type_name v) @ ustr '' has no len()''))"

definition analyze_comment :: "env \<Rightarrow> pyval \<Rightarrow> world \<Rightarrow> (exn + pyval) \<times> world" where
  "analyze_comment e comment_text w =
     (case truncate_text comment_text of
        Inl x \<Rightarrow> (Inl x, w)
      | Inr text \<Rightarrow>
          (case generate_content e (calls w) text of
             Inl x \<Rightarrow> (handle_error e x, w\<lparr>calls := calls w + 1\<rparr>)
           | Inr response_text \<Rightarrow>
               (interpret_response e response_text, w\<lparr>calls := calls w + 1\<rparr>)))"

subsection \<open>The batch\<close>

text \<open>The test of line 241 for a quota failure, and the delay of lines 225 and 229.\<close>

definition is_quota_error :: "exn \<Rightarrow> bool" where
  "is_quota_error x \<longleftrightarrow>
     contains_str (lower (str_exn x)) (ustr ''quota'') \<or> contains_str (str_exn x) (ustr ''429'')"

definition backoff_delay :: "real \<Rightarrow> real \<Rightarrow> nat \<Rightarrow> real" where
  "backoff_delay rate_limit_delay jitter retry_count =
     (let current_delay = rate_limit_delay * jitter in current_delay * 2 ^ retry_count)"

definition default_with_error :: "pystr \<Rightarrow> pyval" where
  "default_with_error msg =
     (case create_default_result of
        PDict d \<Rightarrow> PDict (dict_set d (ustr ''error'') (PStr msg))
      | v \<Rightarrow> v)"

text \<open>
  The body of the \<open>try\<close> block of the retry loop (lines 223 to 237): one draw of the
  jitter, the backoff sleep on a retry, the lookup of \<open>comment["text"]\<close> and the call of
  \<open>analyze_comment\<close>. The product of line 229 raises when the integer \<open>2 ** retry_count\<close>
  is too large for a float, that is from \<open>2 ** 1024\<close> on. The line printed at line 230
  holds numbers only.
\<close>

definition attempt :: "env \<Rightarrow> real \<Rightarrow> pydict \<Rightarrow> nat \<Rightarrow> world \<Rightarrow> (exn + pyval) \<times> world" where
  "attempt e rate_limit_delay comment retry_count w =
     (let jitter = uniform e (draws w);
          w1 = w\<lparr>draws := draws w + 1\<rparr>
      in case (if retry_count > 0 then
                 (if 1024 \<le> retry_count
                  then Inl (OverflowError (ustr ''int too large to convert to float''))
                  else sleep e (backoff_delay rate_limit_delay jitter retry_count) w1)
               else Inr w1) of
           Inl x \<Rightarrow> (Inl x, w1)
         | Inr w2 \<Rightarrow>
             (case py_getitem (PDict comment) (ustr ''text'') of
                Inl x \<Rightarrow> (Inl x, w2)
              | Inr text \<Rightarrow> analyze_comment e text w2))"

text \<open>
  The \<open>while\<close> loop of lines 221 to 251 with its variables \<open>retry_count\<close> and
  \<open>sentiment_result\<close> (\<open>PNone\<close> is Python's \<open>None\<close>). An exception of the sleep or of
  a \<open>print\<close> inside the handler leaves the loop and the batch. The line printed at line
  243 holds numbers only.
\<close>

function retry_loop ::
  "env \<Rightarrow> real \<Rightarrow> int \<Rightarrow> pydict \<Rightarrow> nat \<Rightarrow> pyval \<Rightarrow> world \<Rightarrow> (exn + nat \<times> pyval) \<times> world" where
  "retry_loop e rate_limit_delay max_retries comment retry_count sentiment_result w =
     (if int retry_count < max_retries then
        (case attempt e rate_limit_delay comment retry_count w of
           (Inr result, w1) \<Rightarrow> (Inr (retry_count, result), w1)
         | (Inl x, w1) \<Rightarrow>
             (let retry_count = retry_count + 1 in
              if is_quota_error x then
                (case sleep e (15 * real retry_count) w1 of
                   Inl x' \<Rightarrow> (Inl x', w1)
                 | Inr w2 \<Rightarrow>
                     retry_loop e rate_limit_delay max_retries comment retry_count
                       sentiment_result w2)
              else if int retry_count \<ge> max_retries then
                (case py_print e (ustr ''Failed after '' @ str_int max_retries
                                   @ ustr '' retries: '' @ str_exn x) of
                   Inl x' \<Rightarrow> (Inl x', w1)
                 | Inr u \<Rightarrow>
                     retry_loop e rate_limit_delay max_retries comment retry_count
                       (default_with_error (str_exn x)) w1)
              else
                (case py_print e (ustr ''Error (will retry): '' @ str_exn x) of
                   Inl x' \<Rightarrow> (Inl x', w1)
                 | Inr u \<Rightarrow>
                     retry_loop e rate_limit_delay max_retries comment retry_count
                       sentiment_result w1)))
      else (Inr (retry_count, sentiment_result), w))"
  by pat_completeness auto
termination
  by (relation "measure (\<lambda>(e, d, m, c, retry_count, r, w). nat (m - int retry_count))") auto

text \<open>
  The body of the loop over a batch (lines 212 to 265) for the comment at address \<open>a\<close>.
  It returns the address appended to \<open>results\<close>: the comment itself when it is already
  analysed, else a new dictionary, the copy with the key \<open>sentiment_analysis\<close> set.
\<close>

definition process_comment ::
  "env \<Rightarrow> real \<Rightarrow> int \<Rightarrow> nat \<Rightarrow> world \<Rightarrow> (exn + nat) \<times> world" where
  "process_comment e rate_limit_delay max_retries a w =
     (let comment = heap w ! a in
      if has_key comment (ustr ''sentiment_analysis'') then (Inr a, w)
      else
        (case retry_loop e rate_limit_delay max_retries comment 0 PNone w of
           (Inl x, w1) \<Rightarrow> (Inl x, w1)
         | (Inr (retry_count, sentiment_result), w1) \<Rightarrow>
             (let sentiment_result =
                    (if sentiment_result = PNone
                     then default_with_error (ustr ''Max retries exceeded'')
                     else sentiment_result);
                  comment_with_sentiment =
                    dict_set comment (ustr ''sentiment_analysis'') sentiment_result;
                  w2 = w1\<lparr>heap := heap w1 @ [comment_with_sentiment]\<rparr>
              in if retry_count = 0 then
                   (case sleep e rate_limit_delay w2 of
                      Inl x \<Rightarrow> (Inl x, w2)
                    | Inr w3 \<Rightarrow> (Inr (length (heap w1)), w3))
                 else (Inr (length (heap w1)), w2))))"

fun process_batch ::
  "env \<Rightarrow> real \<Rightarrow> int \<Rightarrow> nat list \<Rightarrow> nat list \<Rightarrow> world \<Rightarrow> (exn + nat list) \<times> world" where
  "process_batch e rate_limit_delay max_retries [] results w = (Inr results, w)"
| "process_batch e rate_limit_delay max_retries (a # batch) results w =
     (case process_comment e rate_limit_delay max_retries a w of
        (Inl x, w') \<Rightarrow> (Inl x, w')
      | (Inr r, w') \<Rightarrow> process_batch e rate_limit_delay max_retries batch (results @ [r]) w')"

text \<open>
  The outer loop \<open>for i in range(0, len(comments), batch_size)\<close> for a positive step,
  started at \<open>i\<close>, with \<open>batch = comments[i:i+batch_size]\<close>. The progress bar around the
  range is not modelled.
\<close>

function batch_loop ::
  "env \<Rightarrow> real \<Rightarrow> int \<Rightarrow> nat list \<Rightarrow> nat \<Rightarrow> nat \<Rightarrow> nat list \<Rightarrow> world
     \<Rightarrow> (exn + nat list) \<times> world" where
  "batch_loop e rate_limit_delay max_retries comments batch_size i results w =
     (if batch_size > 0 \<and> i < length comments then
        (case process_batch e rate_limit_delay max_retries
                (take batch_size (drop i comments)) results w of
           (Inl x, w') \<Rightarrow> (Inl x, w')
         | (Inr results', w') \<Rightarrow>
             batch_loop e rate_limit_delay max_retries comments batch_size (i + batch_size)
               results' w')
      else (Inr results, w))"
  by pat_completeness auto
termination
  by (relation "measure (\<lambda>(e, d, m, comments, b, i, r, w). length comments - i)") auto

text \<open>
  \<open>analyze_comments_batch\<close>. \<open>range\<close> raises for the step 0 and is empty for a negative
  step. The defaults of the arguments are \<open>batch_size = 10\<close>, \<open>rate_limit_delay = 2.0\<close>
  and \<open>max_retries = 3\<close>.
\<close>

definition analyze_comments_batch ::
  "env \<Rightarrow> nat list \<Rightarrow> int \<Rightarrow> real \<Rightarrow> int \<Rightarrow> world \<Rightarrow> (exn + nat list) \<times> world" where
  "analyze_comments_batch e comments batch_size rate_limit_delay max_retries w =
     (if batch_size = 0 then (Inl (ValueError (ustr ''range() arg 3 must not be zero'')), w)
      else if batch_size < 0 then (Inr [], w)
      else batch_loop e rate_limit_delay max_retries comments (nat batch_size) 0 [] w)"

subsection \<open>The summary of a video\<close>

text \<open>
  One comment of the comprehension of lines 285 and 286: \<open>None\<close> when the condition
  filters the comment out, else the value of \<open>c["sentiment_analysis"]["sentiment"]\<close>.
\<close>

definition sentiment_of :: "pydict \<Rightarrow> exn + pyval option" where
  "sentiment_of c =
     (case dict_get c (ustr ''sentiment_analysis'') of
        None \<Rightarrow> Inr None
      | Some sa \<Rightarrow>
          (case py_contains sa (ustr ''sentiment'') of
             Inl e \<Rightarrow> Inl e
           | Inr False \<Rightarrow> Inr None
           | Inr True \<Rightarrow>
               (case py_getitem sa (ustr ''sentiment'') of
                  Inl e \<Rightarrow> Inl e
                | Inr v \<Rightarrow> Inr (Some v))))"

fun collect_sentiments :: "pydict list \<Rightarrow> exn + pyval list" where
  "collect_sentiments [] = Inr []"
| "collect_sentiments (c # cs) =
     (case sentiment_of c of
        Inl e \<Rightarrow> Inl e
      | Inr x \<Rightarrow>
          (case collect_sentiments cs of
             Inl e \<Rightarrow> Inl e
           | Inr xs \<Rightarrow> Inr ((case x of None \<Rightarrow> [] | Some v \<Rightarrow> [v]) @ xs)))"

text \<open>\<open>max(d, key=d.get)\<close>: the first key, in insertion order, whose value is largest.\<close>

fun max_key_from :: "pystr \<times> int \<Rightarrow> (pystr \<times> int) list \<Rightarrow> pystr" where
  "max_key_from best [] = fst best"
| "max_key_from best (kv # kvs) = max_key_from (if snd kv > snd best then kv else best) kvs"

definition max_key :: "(pystr \<times> int) list \<Rightarrow> pystr" where
  "max_key d = (case d of [] \<Rightarrow> [] | kv # kvs \<Rightarrow> max_key_from kv kvs)"

definition sentiment_counts :: "nat \<Rightarrow> pyval list \<Rightarrow> (pystr \<times> int) list" where
  "sentiment_counts n sentiments =
     [(ustr ''positive'', int (count_list sentiments (PStr (ustr ''positive'')))),
      (ustr ''negative'', int (count_list sentiments (PStr (ustr ''negative'')))),
      (ustr ''neutral'', int (count_list sentiments (PStr (ustr ''neutral'')))),
      (ustr ''unknown'', int n - int (length sentiments))]"

record summary =
  counts :: "(pystr \<times> int) list"
  total_comments :: nat
  overall_sentiment :: pystr

definition sentiment_summary :: "pydict list \<Rightarrow> exn + summary" where
  "sentiment_summary cs =
     (case collect_sentiments cs of
        Inl e \<Rightarrow> Inl e
      | Inr sentiments \<Rightarrow>
          Inr \<lparr>counts = sentiment_counts (length cs) sentiments,
               total_comments = length cs,
               overall_sentiment = max_key (sentiment_counts (length cs) sentiments)\<rparr>)"

text \<open>
  \<open>analyze_video_comments\<close>: the batch with the default arguments, then the summary of
  the comments it returned. The result holds the three entries of the returned dict: the
  video information unchanged, the addresses of the comments and the summary.
\<close>

record video_result =
  r_video_info :: pyval
  r_comments :: "nat list"
  r_sentiment_summary :: summary

definition analyze_video_comments ::
  "env \<Rightarrow> pyval \<Rightarrow> nat list \<Rightarrow> world \<Rightarrow> (exn + video_result) \<times> world" where
  "analyze_video_comments e info cs w =
     (case analyze_comments_batch e cs 10 2 3 w of
        (Inl x, w') \<Rightarrow> (Inl x, w')
      | (Inr results, w') \<Rightarrow>
          (case sentiment_summary (map (\<lambda>a. heap w' ! a) results) of
             Inl x \<Rightarrow> (Inl x, w')
           | Inr s \<Rightarrow>
               (Inr \<lparr>r_video_info = info, r_comments = results, r_sentiment_summary = s\<rparr>, w')))"

section \<open>Notions used in the statements\<close>

text \<open>
  A text has a brace pair when a \<open>}\<close> occurs after its first \<open>{\<close>; \<open>part_of t s\<close> says
  that \<open>t\<close> is a contiguous part of \<open>s\<close>.
\<close>

definition has_brace_pair :: "pystr \<Rightarrow> bool" where
  "has_brace_pair s \<longleftrightarrow> 125 \<in> set (dropWhile (\<lambda>c. c \<noteq> 123) s)"

definition part_of :: "pystr \<Rightarrow> pystr \<Rightarrow> bool" where
  "part_of t s \<longleftrightarrow> (\<exists>p q. s = p @ t @ q)"

text \<open>
  A text wrapped in a fenced code block: the opening fence with a language hint (empty
  for none), a line break, the text, a line break and the closing fence.
\<close>

definition fence :: "pystr \<Rightarrow> pystr \<Rightarrow> pystr" where
  "fence hint t = ustr ''```'' @ hint @ [10] @ t @ [10] @ ustr ''```''"

text \<open>
  Characters that can follow a JSON text without being part of a token: whitespace in
  the sense of \<open>str.strip\<close>, and the backquote of a fence.
\<close>

definition inert :: "nat \<Rightarrow> bool" where
  "inert c \<longleftrightarrow> isspace c \<or> c = 96"



text \<open>
  An environment for the examples: the limits of CPython 3.11 as it starts (4300 digits; the
  depth left for the decoder depends on the call stack, 990 is below what is observed), a
  standard output that writes every line, every jitter equal to 1 and a clock that
  sleeps up to \<open>2^63\<close> nanoseconds. The service is left open.
\<close>

definition default_env :: "(nat \<Rightarrow> pyval \<Rightarrow> exn + pystr) \<Rightarrow> env" where
  "default_env g =
     \<lparr>generate_content = g, uniform = (\<lambda>n. 1), max_str_digits = 4300, max_depth = 990,
      print_error = (\<lambda>line. None),
      sleep_error = (\<lambda>secs. if 9223372036 < secs
                             then Some (OverflowError (ustr ''timestamp out of range for platform time_t''))
                             else None)\<rparr>"

text \<open>The definitions that the evaluation of a closed term unfolds.\<close>

lemmas eval_defs = json_loads_def scan_scalar_def match_number_def int_part_def
  frac_part_def exp_part_def startswith_def endswith_def is_digit_def json_ws_def digits_val_def
  cons_str_def unescape_def hexval_def clean_response_def strip_def lstrip_def rstrip_def isspace_def
  extract_result_def rfind_def slice_def interpret_response_def parse_response_def required_fields_def
  create_default_result_def get_default_value_def error_result_def has_key_def Let_def quoted_def
  type_name_def handle_error_def py_print_def ascii_def default_env_def exceeds_limit_def
  int_digits_def

section \<open>Properties of the decoder\<close>








lemma hex4_append_None:
  assumes "\<forall>c\<in>set w. inert c" "hex4 (r @ w) = None"
  shows "hex4 r = None"
  using assms by (cases r rule: hex4.cases) auto







lemma startswith_simps:
  "startswith s [] = True"
  "startswith [] (a # p) = False"
  "startswith (b # s) (a # p) = (b = a \<and> startswith s p)"
  by (auto simp: startswith_def)
























lemma json_ws_isspace: "json_ws c \<Longrightarrow> isspace c"
  by (auto simp: json_ws_def isspace_def)


lemma rstrip_decomp: "\<exists>w. s = rstrip s @ w \<and> (\<forall>c\<in>set w. isspace c)"
proof -
  have "rev s = takeWhile isspace (rev s) @ dropWhile isspace (rev s)" by simp
  then have "s = rev (dropWhile isspace (rev s)) @ rev (takeWhile isspace (rev s))"
    by (metis rev_append rev_rev_ident)
  moreover have "\<forall>c\<in>set (rev (takeWhile isspace (rev s))). isspace c"
    by (auto dest: set_takeWhileD)
  ultimately show ?thesis unfolding rstrip_def by blast
qed









lemma rstrip_idem: "rstrip (rstrip s) = rstrip s"
  by (simp add: rstrip_def)

lemma lstrip_idem: "lstrip (lstrip s) = lstrip s"
  by (simp add: lstrip_def)

lemma lstrip_id: "s = [] \<or> \<not> isspace (hd s) \<Longrightarrow> lstrip s = s"
  by (cases s) (auto simp: lstrip_def)

lemma rstrip_id: "s = [] \<or> \<not> isspace (last s) \<Longrightarrow> rstrip s = s"
  by (cases s rule: rev_cases) (auto simp: rstrip_def)

lemma lstrip_hd: "lstrip s = [] \<or> \<not> isspace (hd (lstrip s))"
  unfolding lstrip_def by (metis hd_dropWhile)

lemma rstrip_last: "rstrip s = [] \<or> \<not> isspace (last (rstrip s))"
  unfolding rstrip_def by (metis hd_dropWhile last_rev rev_is_Nil_conv)

lemma rstrip_hd: "rstrip s \<noteq> [] \<Longrightarrow> hd (rstrip s) = hd s"
  using rstrip_decomp[of s] by (metis hd_append2)

lemma strip_hd: "strip s = [] \<or> \<not> isspace (hd (strip s))"
proof (cases "strip s = []")
  case False
  then have ne: "rstrip (lstrip s) \<noteq> []" by (simp add: strip_def)
  then have "lstrip s \<noteq> []" by (auto simp: rstrip_def)
  with lstrip_hd[of s] rstrip_hd[OF ne] show ?thesis by (simp add: strip_def)
qed simp

lemma strip_last: "strip s = [] \<or> \<not> isspace (last (strip s))"
  unfolding strip_def by (rule rstrip_last)

lemma strip_id: "(s = [] \<or> \<not> isspace (hd s)) \<Longrightarrow> (s = [] \<or> \<not> isspace (last s)) \<Longrightarrow> strip s = s"
  by (simp add: strip_def lstrip_id rstrip_id)

lemma strip_idem: "strip (strip s) = strip s"
  by (rule strip_id[OF strip_hd strip_last])




lemma clean_response_no_fence:
  assumes "\<not> startswith (strip s) (ustr ''```'')" "\<not> endswith (strip s) (ustr ''```'')"
  shows "clean_response s = strip s"
proof -
  have "\<not> startswith (strip s) (ustr ''```json'')"
    using assms(1) by (cases "strip s" rule: hex4.cases) (auto simp: startswith_simps)
  with assms show ?thesis by (simp add: clean_response_def Let_def strip_idem)
qed


section \<open>The Response Interpreter\<close>

lemma dict_set_absent: "\<not> has_key d k \<Longrightarrow> dict_set d k v = d @ [(k, v)]"
  by (induction d) (auto simp: has_key_def)

lemma has_key_append: "has_key (d @ d') k \<longleftrightarrow> has_key d k \<or> has_key d' k"
  by (induction d) (auto simp: has_key_def split: if_splits)

lemma has_key_single: "has_key [(k', v)] k \<longleftrightarrow> k' = k"
  by (simp add: has_key_def)


lemma extract_result_json: "json_loads e t = Inr v \<Longrightarrow> extract_result e t = Inr v"
  by (simp add: extract_result_def)



lemma fill_two_missing:
  assumes "has_key d (ustr ''sentiment'')" "has_key d (ustr ''score'')"
    "has_key d (ustr ''key_phrases'')" "\<not> has_key d (ustr ''topics'')"
    "\<not> has_key d (ustr ''emotional_tone'')"
  shows "fill_required required_fields (PDict d) =
         Inr (PDict (d @ [(ustr ''topics'', PList []), (ustr ''emotional_tone'', PList [])]))"
proof -
  have t: "get_default_value (ustr ''topics'') = PList []"
    and e: "get_default_value (ustr ''emotional_tone'') = PList []"
    by (simp_all add: get_default_value_def create_default_result_def)
  have k: "\<not> has_key (d @ [(ustr ''topics'', PList [])]) (ustr ''emotional_tone'')"
    using assms(5) by (simp add: has_key_append has_key_single)
  show ?thesis
    using assms t e k by (simp add: required_fields_def dict_set_absent)
qed

lemma dropWhile_first:
  "x \<notin> set a \<Longrightarrow> dropWhile (\<lambda>c. c \<noteq> x) (a @ x # r) = x # r"
  by (induction a) auto

lemma has_brace_pair_iff: "has_brace_pair s \<longleftrightarrow> (\<exists>a b c. s = a @ 123 # b @ 125 # c)"
proof
  assume "has_brace_pair s"
  then have in1: "125 \<in> set (dropWhile (\<lambda>c. c \<noteq> 123) s)" by (simp add: has_brace_pair_def)
  have ne: "dropWhile (\<lambda>c. c \<noteq> 123) s \<noteq> []"
  proof
    assume "dropWhile (\<lambda>c. c \<noteq> 123) s = []"
    with in1 show False by (simp only: list.set empty_iff)
  qed
  have hd: "hd (dropWhile (\<lambda>c. c \<noteq> 123) s) = 123" using hd_dropWhile[OF ne] by simp
  obtain x r where xr: "dropWhile (\<lambda>c. c \<noteq> 123) s = x # r"
    using ne by (cases "dropWhile (\<lambda>c. c \<noteq> 123) s") simp_all
  with hd have r: "dropWhile (\<lambda>c. c \<noteq> 123) s = 123 # r" by simp
  with in1 have "125 \<in> set r" by simp
  from split_list[OF this] obtain b c where bc: "r = b @ 125 # c" by blast
  have "s = takeWhile (\<lambda>c. c \<noteq> 123) s @ dropWhile (\<lambda>c. c \<noteq> 123) s" by simp
  then have "s = takeWhile (\<lambda>c. c \<noteq> 123) s @ 123 # b @ 125 # c"
    unfolding r bc .
  then show "\<exists>a b c. s = a @ 123 # b @ 125 # c" by blast
next
  assume "\<exists>a b c. s = a @ 123 # b @ 125 # c"
  then obtain a b c where s: "s = a @ 123 # b @ 125 # c" by blast
  have "123 \<in> set (a @ [123])" by simp
  from split_list_first[OF this] obtain a1 a2 where a: "a @ [123] = a1 @ 123 # a2" "123 \<notin> set a1"
    by blast
  have "s = (a @ [123]) @ b @ 125 # c" unfolding s by simp
  then have s': "s = a1 @ 123 # (a2 @ b @ 125 # c)" unfolding a(1) by simp
  have "dropWhile (\<lambda>c. c \<noteq> 123) s = 123 # (a2 @ b @ 125 # c)"
    unfolding s' by (rule dropWhile_first[OF a(2)])
  then show "has_brace_pair s" by (simp add: has_brace_pair_def)
qed

lemma has_brace_pair_infix: "has_brace_pair t \<Longrightarrow> has_brace_pair (p @ t @ q)"
proof -
  assume "has_brace_pair t"
  then obtain a b c where "t = a @ 123 # b @ 125 # c" unfolding has_brace_pair_iff by blast
  then have "p @ t @ q = (p @ a) @ 123 # b @ 125 # (c @ q)" by simp
  then show ?thesis unfolding has_brace_pair_iff by blast
qed

lemma find_neg: "find s c < 0 \<longleftrightarrow> c \<notin> set s"
  by (induction s) (auto simp: Let_def)

lemma find_nonneg: "find s c \<ge> -1"
  by (induction s) (auto simp: Let_def)

lemma find_decomp:
  "0 \<le> find s c \<Longrightarrow> \<exists>a r. s = a @ c # r \<and> c \<notin> set a \<and> find s c = int (length a)"
proof (induction s)
  case Nil
  then show ?case by simp
next
  case (Cons x s)
  show ?case
  proof (cases "x = c")
    case True
    then have "x # s = [] @ c # s \<and> c \<notin> set [] \<and> find (x # s) c = int (length ([]::nat list))" by simp
    then show ?thesis by blast
  next
    case False
    with Cons.prems have nn: "0 \<le> find s c" by (auto simp: Let_def split: if_splits)
    from Cons.IH[OF nn] obtain a r where ar: "s = a @ c # r" "c \<notin> set a" "find s c = int (length a)"
      by blast
    with False nn have "x # s = (x # a) @ c # r \<and> c \<notin> set (x # a) \<and> find (x # s) c = int (length (x # a))"
      by (auto simp: Let_def)
    then show ?thesis by blast
  qed
qed

lemma rfind_decomp:
  assumes "0 \<le> rfind s c"
  shows "\<exists>p q. s = p @ c # q \<and> c \<notin> set q \<and> rfind s c = int (length p)"
proof -
  from assms have nn: "0 \<le> find (rev s) c" by (auto simp: rfind_def Let_def split: if_splits)
  from find_decomp[OF nn] obtain a r where ar: "rev s = a @ c # r" "c \<notin> set a" "find (rev s) c = int (length a)"
    by blast
  from ar(1) have "rev (rev s) = rev (a @ c # r)" by simp
  then have s: "s = rev r @ c # rev a" by simp
  have "length s = length a + length r + 1" unfolding s by simp
  with ar(3) nn have "rfind s c = int (length (rev r))" by (simp add: rfind_def Let_def)
  with s ar(2) show ?thesis by (metis set_rev)
qed

lemma extraction_has_brace_pair:
  assumes "0 \<le> find t 123" "find t 123 < rfind t 125 + 1"
  shows "has_brace_pair t"
proof -
  from find_decomp[OF assms(1)] obtain a r where ar: "t = a @ 123 # r" "find t 123 = int (length a)"
    by blast
  from assms have "0 \<le> rfind t 125" by simp
  from rfind_decomp[OF this] obtain p q where pq: "t = p @ 125 # q" "rfind t 125 = int (length p)"
    by blast
  from assms(2) ar(2) pq(2) have le: "length a \<le> length p" by simp
  have "t ! length a = 123" unfolding ar(1) by simp
  moreover have "t ! length p = 125" unfolding pq(1) by simp
  ultimately have "length a \<noteq> length p" by auto
  with le have lt: "length a < length p" by simp
  have "take (length p) t = p" unfolding pq(1) by simp
  moreover have "take (length p) t = a @ 123 # take (length p - length a - 1) r"
    unfolding ar(1) using lt by (simp add: take_Cons')
  ultimately have "p = a @ 123 # take (length p - length a - 1) r" by simp
  with pq(1) have "t = a @ 123 # take (length p - length a - 1) r @ 125 # q" by simp
  then show ?thesis unfolding has_brace_pair_iff by blast
qed

lemma part_of_refl: "part_of s s"
  unfolding part_of_def by (metis append_Nil append_Nil2)

lemma part_of_trans: "part_of a b \<Longrightarrow> part_of b c \<Longrightarrow> part_of a c"
proof -
  assume "part_of a b" "part_of b c"
  then obtain p q p' q' where "b = p @ a @ q" "c = p' @ b @ q'" unfolding part_of_def by blast
  then have "c = (p' @ p) @ a @ (q @ q')" by simp
  then show ?thesis unfolding part_of_def by blast
qed

lemma part_of_drop: "part_of (drop n s) s"
proof -
  have "s = take n s @ drop n s @ []" by simp
  then show ?thesis unfolding part_of_def by blast
qed

lemma part_of_take: "part_of (take n s) s"
proof -
  have "s = [] @ take n s @ drop n s" by simp
  then show ?thesis unfolding part_of_def by blast
qed

lemma part_of_strip: "part_of (strip s) s"
proof -
  have "s = takeWhile isspace s @ lstrip s @ []" by (simp add: lstrip_def)
  then have l: "part_of (lstrip s) s" unfolding part_of_def by blast
  from rstrip_decomp[of "lstrip s"] obtain w where "lstrip s = [] @ rstrip (lstrip s) @ w" by auto
  then have "part_of (rstrip (lstrip s)) (lstrip s)" unfolding part_of_def by blast
  from part_of_trans[OF this l] show ?thesis unfolding strip_def .
qed

lemma part_of_clean_response: "part_of (clean_response s) s"
proof -
  define t1 where "t1 = strip s"
  define t2 where "t2 = (if startswith t1 (ustr ''```json'') then drop 7 t1 else t1)"
  define t3 where "t3 = (if startswith t2 (ustr ''```'') then drop 3 t2 else t2)"
  define t4 where "t4 = (if endswith t3 (ustr ''```'') then take (length t3 - 3) t3 else t3)"
  have c: "clean_response s = strip t4"
    by (simp add: clean_response_def Let_def t1_def t2_def t3_def t4_def)
  have 1: "part_of t1 s" unfolding t1_def by (rule part_of_strip)
  have 2: "part_of t2 t1" unfolding t2_def by (simp add: part_of_refl part_of_drop)
  have 3: "part_of t3 t2" unfolding t3_def by (simp add: part_of_refl part_of_drop)
  have 4: "part_of t4 t3" unfolding t4_def by (simp add: part_of_refl part_of_take)
  have 5: "part_of (strip t4) t4" by (rule part_of_strip)
  show ?thesis unfolding c
    by (rule part_of_trans[OF 5 part_of_trans[OF 4 part_of_trans[OF 3 part_of_trans[OF 2 1]]]])
qed

lemma has_brace_pair_part_of: "part_of t s \<Longrightarrow> has_brace_pair t \<Longrightarrow> has_brace_pair s"
  unfolding part_of_def using has_brace_pair_infix by blast

text \<open>
  The cleaning of lines 116 to 126 removes characters at both ends only. It cannot reach
  past a \<open>{\<close> on the left or a \<open>}\<close> on the right, since neither is whitespace or part
  of a fence.
\<close>

lemma startswith_infix_length:
  assumes "startswith (p @ b # r) pat" "b \<notin> set pat"
  shows "length pat \<le> length p"
proof (rule ccontr)
  assume "\<not> length pat \<le> length p"
  then have lt: "length p < length pat" by simp
  from assms(1) have "take (length pat) (p @ b # r) = pat" by (simp add: startswith_def)
  then have "pat ! length p = (take (length pat) (p @ b # r)) ! length p" by simp
  also have "\<dots> = (p @ b # r) ! length p" using lt by (rule nth_take)
  also have "\<dots> = b" by simp
  finally have "pat ! length p = b" .
  with lt have "b \<in> set pat" by (metis nth_mem)
  with assms(2) show False by simp
qed

lemma endswith_rev: "endswith t pat \<Longrightarrow> startswith (rev t) (rev pat)"
  by (simp add: endswith_def startswith_def take_rev)

lemma endswith_infix_length:
  assumes "endswith (r @ b # q) pat" "b \<notin> set pat"
  shows "length pat \<le> length q"
proof -
  from endswith_rev[OF assms(1)] have "startswith (rev q @ b # rev r) (rev pat)" by simp
  from startswith_infix_length[OF this] assms(2) show ?thesis by simp
qed

lemma drop_frame:
  assumes "startswith (p @ b # r) pat" "b \<notin> set pat" "n = length pat"
  shows "drop n (p @ b # r) = drop n p @ b # r"
  using startswith_infix_length[OF assms(1,2)] assms(3) by simp

lemma take_frame:
  assumes "endswith (r @ b # q) pat" "b \<notin> set pat" "n = length pat"
  shows "take (length (r @ b # q) - n) (r @ b # q) = r @ b # take (length q - n) q"
  using endswith_infix_length[OF assms(1,2)] assms(3) by (simp add: Suc_diff_le)

lemma lstrip_frame:
  "\<not> isspace b \<Longrightarrow> \<exists>p'. lstrip (p @ b # r) = p' @ b # r \<and> set p' \<subseteq> set p"
proof (induction p)
  case Nil
  then show ?case by (simp add: lstrip_def)
next
  case (Cons a p)
  show ?case
  proof (cases "isspace a")
    case True
    from Cons.IH[OF Cons.prems] obtain p' where "lstrip (p @ b # r) = p' @ b # r" "set p' \<subseteq> set p"
      by blast
    with True have "lstrip ((a # p) @ b # r) = p' @ b # r \<and> set p' \<subseteq> set (a # p)"
      by (auto simp: lstrip_def)
    then show ?thesis by blast
  next
    case False
    then have "lstrip ((a # p) @ b # r) = (a # p) @ b # r \<and> set (a # p) \<subseteq> set (a # p)"
      by (simp add: lstrip_def)
    then show ?thesis by blast
  qed
qed

lemma rstrip_frame:
  assumes "\<not> isspace b"
  shows "\<exists>q'. rstrip (r @ b # q) = r @ b # q' \<and> set q' \<subseteq> set q"
proof -
  from lstrip_frame[OF assms, of "rev q" "rev r"] obtain p' where
    p': "lstrip (rev q @ b # rev r) = p' @ b # rev r" "set p' \<subseteq> set (rev q)" by blast
  have "rstrip (r @ b # q) = rev (lstrip (rev (r @ b # q)))" by (simp add: rstrip_def lstrip_def)
  also have "\<dots> = rev (p' @ b # rev r)" using p'(1) by simp
  also have "\<dots> = r @ b # rev p'" by simp
  finally have "rstrip (r @ b # q) = r @ b # rev p' \<and> set (rev p') \<subseteq> set q" using p'(2) by simp
  then show ?thesis by blast
qed

lemma strip_frame:
  assumes "\<not> isspace a" "\<not> isspace b"
  shows "\<exists>p' q'. strip (p @ a # m @ b # q) = p' @ a # m @ b # q' \<and> set p' \<subseteq> set p \<and> set q' \<subseteq> set q"
proof -
  from lstrip_frame[OF assms(1), of p "m @ b # q"] obtain p' where
    p': "lstrip (p @ a # m @ b # q) = p' @ a # m @ b # q" "set p' \<subseteq> set p" by blast
  from rstrip_frame[OF assms(2), of "p' @ a # m" q] obtain q' where
    q': "rstrip ((p' @ a # m) @ b # q) = (p' @ a # m) @ b # q'" "set q' \<subseteq> set q" by blast
  have "strip (p @ a # m @ b # q) = p' @ a # m @ b # q'"
    using p'(1) q'(1) by (simp add: strip_def)
  with p'(2) q'(2) show ?thesis by blast
qed

lemma clean_response_frame:
  "\<exists>p' q'. clean_response (p @ 123 # m @ 125 # q) = p' @ 123 # m @ 125 # q'
            \<and> set p' \<subseteq> set p \<and> set q' \<subseteq> set q"
proof -
  have sp: "\<not> isspace 123" "\<not> isspace 125" by (simp_all add: isspace_def)
  have pat7: "123 \<notin> set (ustr ''```json'')" "7 = length (ustr ''```json'')" by simp_all
  have pat3: "123 \<notin> set (ustr ''```'')" "3 = length (ustr ''```'')" by simp_all
  have end3: "125 \<notin> set (ustr ''```'')" by simp
  define t1 where "t1 = strip (p @ 123 # m @ 125 # q)"
  define t2 where "t2 = (if startswith t1 (ustr ''```json'') then drop 7 t1 else t1)"
  define t3 where "t3 = (if startswith t2 (ustr ''```'') then drop 3 t2 else t2)"
  define t4 where "t4 = (if endswith t3 (ustr ''```'') then take (length t3 - 3) t3 else t3)"
  have c: "clean_response (p @ 123 # m @ 125 # q) = strip t4"
    by (simp add: clean_response_def Let_def t1_def t2_def t3_def t4_def)
  from strip_frame[OF sp, of p m q] obtain p1 q1 where
    1: "t1 = p1 @ 123 # m @ 125 # q1" "set p1 \<subseteq> set p" "set q1 \<subseteq> set q"
    unfolding t1_def by blast
  have "\<exists>p2. t2 = p2 @ 123 # m @ 125 # q1 \<and> set p2 \<subseteq> set p"
  proof (cases "startswith t1 (ustr ''```json'')")
    case True
    then have st: "startswith (p1 @ 123 # (m @ 125 # q1)) (ustr ''```json'')" unfolding 1(1) .
    have "drop 7 t1 = drop 7 p1 @ 123 # m @ 125 # q1"
      unfolding 1(1) by (rule drop_frame[OF st pat7])
    then have a: "t2 = drop 7 p1 @ 123 # m @ 125 # q1" using True by (simp only: t2_def if_True)
    have "set (drop 7 p1) \<subseteq> set p" using set_drop_subset[of 7 p1] 1(2) by blast
    with a show ?thesis by blast
  next
    case False
    then have "t2 = p1 @ 123 # m @ 125 # q1" using 1(1) by (simp only: t2_def if_False)
    with 1(2) show ?thesis by blast
  qed
  then obtain p2 where 2: "t2 = p2 @ 123 # m @ 125 # q1" "set p2 \<subseteq> set p" by blast
  have "\<exists>p3. t3 = p3 @ 123 # m @ 125 # q1 \<and> set p3 \<subseteq> set p"
  proof (cases "startswith t2 (ustr ''```'')")
    case True
    then have st: "startswith (p2 @ 123 # (m @ 125 # q1)) (ustr ''```'')" unfolding 2(1) .
    have "drop 3 t2 = drop 3 p2 @ 123 # m @ 125 # q1"
      unfolding 2(1) by (rule drop_frame[OF st pat3])
    then have a: "t3 = drop 3 p2 @ 123 # m @ 125 # q1" using True by (simp only: t3_def if_True)
    have "set (drop 3 p2) \<subseteq> set p" using set_drop_subset[of 3 p2] 2(2) by blast
    with a show ?thesis by blast
  next
    case False
    then have "t3 = p2 @ 123 # m @ 125 # q1" using 2(1) by (simp only: t3_def if_False)
    with 2(2) show ?thesis by blast
  qed
  then obtain p3 where 3: "t3 = p3 @ 123 # m @ 125 # q1" "set p3 \<subseteq> set p" by blast
  have e3: "t3 = (p3 @ 123 # m) @ 125 # q1" using 3(1) by simp
  have "\<exists>q4. t4 = (p3 @ 123 # m) @ 125 # q4 \<and> set q4 \<subseteq> set q"
  proof (cases "endswith t3 (ustr ''```'')")
    case True
    then have en: "endswith ((p3 @ 123 # m) @ 125 # q1) (ustr ''```'')" unfolding e3 .
    have "take (length t3 - 3) t3 = (p3 @ 123 # m) @ 125 # take (length q1 - 3) q1"
      unfolding e3 by (rule take_frame[OF en end3 pat3(2)])
    then have a: "t4 = (p3 @ 123 # m) @ 125 # take (length q1 - 3) q1"
      using True by (simp only: t4_def if_True)
    have "set (take (length q1 - 3) q1) \<subseteq> set q"
      using set_take_subset[of "length q1 - 3" q1] 1(3) by blast
    with a show ?thesis by blast
  next
    case False
    then have "t4 = (p3 @ 123 # m) @ 125 # q1" using e3 by (simp only: t4_def if_False)
    with 1(3) show ?thesis by blast
  qed
  then obtain q4 where 4: "t4 = p3 @ 123 # m @ 125 # q4" "set q4 \<subseteq> set q" by auto
  from strip_frame[OF sp, of p3 m q4] obtain p5 q5 where
    5: "strip t4 = p5 @ 123 # m @ 125 # q5" "set p5 \<subseteq> set p3" "set q5 \<subseteq> set q4"
    unfolding 4(1) by blast
  from 5 3(2) 4(2) have "clean_response (p @ 123 # m @ 125 # q) = p5 @ 123 # m @ 125 # q5
      \<and> set p5 \<subseteq> set p \<and> set q5 \<subseteq> set q"
    unfolding c by blast
  then show ?thesis by blast
qed

lemma find_first: "c \<notin> set a \<Longrightarrow> find (a @ c # r) c = int (length a)"
  by (induction a) (auto simp: Let_def)

lemma rfind_last: "c \<notin> set q \<Longrightarrow> rfind (p @ c # q) c = int (length p)"
proof -
  assume "c \<notin> set q"
  then have "c \<notin> set (rev q)" by simp
  from find_first[OF this, of "rev p"] have "find (rev (p @ c # q)) c = int (length q)" by simp
  then show ?thesis by (simp add: rfind_def Let_def)
qed

lemma extract_result_framed:
  assumes "123 \<notin> set p" "125 \<notin> set q"
    and "json_loads e (p @ 123 # m @ 125 # q) = Inl JSONDecodeError"
    and "json_loads e (123 # m @ [125]) = Inr v"
  shows "extract_result e (p @ 123 # m @ 125 # q) = Inr v"
proof -
  let ?t = "p @ 123 # m @ 125 # q"
  have f: "find ?t 123 = int (length p)" by (rule find_first[OF assms(1)])
  have "rfind ((p @ 123 # m) @ 125 # q) 125 = int (length (p @ 123 # m))"
    by (rule rfind_last[OF assms(2)])
  then have r: "rfind ?t 125 = int (length p + 1 + length m)" by simp
  have n: "nat (int (length p + 1 + length m) + 1) - nat (int (length p)) = Suc (Suc (length m))"
    by linarith
  have s: "slice ?t (int (length p)) (int (length p + 1 + length m) + 1) = 123 # m @ [125]"
    unfolding slice_def n by simp
  show ?thesis
    unfolding extract_result_def Let_def f r s using assms(3,4) by simp
qed

text \<open>
  C6, amended: the raw text is \<open>pre @ body @ post\<close>, where \<open>body\<close> runs from a \<open>{\<close> to a
  \<open>}\<close>, no \<open>{\<close> occurs before it and no \<open>}\<close> after it, and \<open>json.loads\<close> reads \<open>body\<close>
  as an object that has the keys \<open>sentiment\<close>, \<open>score\<close> and \<open>key_phrases\<close> and lacks
  \<open>topics\<close> and \<open>emotional_tone\<close>. When the cleaned text (lines 116 to 126) is \<open>body\<close>
  itself, or \<open>json.loads\<close> rejects it with \<open>JSONDecodeError\<close>, the interpreter returns that
  object with exactly \<open>topics\<close> and \<open>emotional_tone\<close> added, both empty lists, and
  everything parsed kept.
\<close>

theorem interpret_fills_missing:
  assumes "raw = pre @ body @ post" "123 \<notin> set pre" "125 \<notin> set post"
    and "hd body = 123" "last body = 125"
    and "json_loads e body = Inr (PDict d)"
    and "has_key d (ustr ''sentiment'')" "has_key d (ustr ''score'')"
    and "has_key d (ustr ''key_phrases'')" "\<not> has_key d (ustr ''topics'')"
    and "\<not> has_key d (ustr ''emotional_tone'')"
    and "clean_response raw = body \<or> json_loads e (clean_response raw) = Inl JSONDecodeError"
  shows "interpret_response e raw =
         Inr (PDict (d @ [(ustr ''topics'', PList []), (ustr ''emotional_tone'', PList [])]))"
proof -
  have ne: "body \<noteq> []"
  proof
    assume "body = []"
    with assms(6) show False by (simp add: json_loads_def)
  qed
  then obtain x xs where b1: "body = x # xs" by (cases body) auto
  with assms(4) have x: "x = 123" by simp
  have "xs \<noteq> []"
  proof
    assume "xs = []"
    with b1 x assms(5) show False by simp
  qed
  then obtain m y where xs: "xs = m @ [y]" by (cases xs rule: rev_cases) auto
  with b1 assms(5) have y: "y = 125" by simp
  have body: "body = 123 # m @ [125]" using b1 x xs y by simp
  have raw: "raw = pre @ 123 # m @ 125 # post" using assms(1) body by simp
  from clean_response_frame[of pre m post] obtain p' q' where
    c: "clean_response raw = p' @ 123 # m @ 125 # q'" "set p' \<subseteq> set pre" "set q' \<subseteq> set post"
    unfolding raw by blast
  have n: "123 \<notin> set p'" "125 \<notin> set q'" using c(2,3) assms(2,3) by blast+
  have "extract_result e (clean_response raw) = Inr (PDict d)"
  proof (cases "clean_response raw = body")
    case True
    with assms(6) show ?thesis by (simp add: extract_result_json)
  next
    case False
    with assms(12) have j: "json_loads e (p' @ 123 # m @ 125 # q') = Inl JSONDecodeError"
      unfolding c(1) by simp
    have k: "json_loads e (123 # m @ [125]) = Inr (PDict d)" using assms(6) body by simp
    show ?thesis unfolding c(1) by (rule extract_result_framed[OF n j k])
  qed
  with fill_two_missing[OF assms(7-11)] show ?thesis
    by (simp add: interpret_response_def parse_response_def)
qed

theorem interpret_fills_missing_witness:
  \<open>ustr ''Here it is: {"sentiment": "positive", "score": 0.8, "key_phrases": ["great"]} Thanks!''
     = ustr ''Here it is: '' @ ustr ''{"sentiment": "positive", "score": 0.8, "key_phrases": ["great"]}''
         @ ustr '' Thanks!''
   \<and> 123 \<notin> set (ustr ''Here it is: '') \<and> 125 \<notin> set (ustr '' Thanks!'')
   \<and> json_loads (default_env (\<lambda>n t. Inr []))
        (ustr ''{"sentiment": "positive", "score": 0.8, "key_phrases": ["great"]}'')
       = Inr (PDict [(ustr ''sentiment'', PStr (ustr ''positive'')), (ustr ''score'', PFloat (ustr ''0.8'')),
                     (ustr ''key_phrases'', PList [PStr (ustr ''great'')])])
   \<and> json_loads (default_env (\<lambda>n t. Inr []))
        (clean_response (ustr ''Here it is: {"sentiment": "positive", "score": 0.8, "key_phrases": ["great"]} Thanks!''))
       = Inl JSONDecodeError
   \<and> interpret_response (default_env (\<lambda>n t. Inr []))
        (ustr ''Here it is: {"sentiment": "positive", "score": 0.8, "key_phrases": ["great"]} Thanks!'')
       = Inr (PDict [(ustr ''sentiment'', PStr (ustr ''positive'')), (ustr ''score'', PFloat (ustr ''0.8'')),
                     (ustr ''key_phrases'', PList [PStr (ustr ''great'')]),
                     (ustr ''topics'', PList []), (ustr ''emotional_tone'', PList [])])\<close>
proof -
  let ?e = "default_env (\<lambda>n t. Inr [])"
  let ?raw = \<open>ustr ''Here it is: {"sentiment": "positive", "score": 0.8, "key_phrases": ["great"]} Thanks!''\<close>
  let ?pre = "ustr ''Here it is: ''"
  let ?body = \<open>ustr ''{"sentiment": "positive", "score": 0.8, "key_phrases": ["great"]}''\<close>
  let ?post = "ustr '' Thanks!''"
  let ?d = "[(ustr ''sentiment'', PStr (ustr ''positive'')), (ustr ''score'', PFloat (ustr ''0.8'')),
             (ustr ''key_phrases'', PList [PStr (ustr ''great'')])]"
  have h1: "?raw = ?pre @ ?body @ ?post" by simp
  have h2: "123 \<notin> set ?pre" by simp
  have h3: "125 \<notin> set ?post" by simp
  have h4: "hd ?body = 123" by simp
  have h5: "last ?body = 125" by simp
  have h6: "json_loads ?e ?body = Inr (PDict ?d)" by (simp add: eval_defs)
  have k: "has_key ?d (ustr ''sentiment'')" "has_key ?d (ustr ''score'')"
    "has_key ?d (ustr ''key_phrases'')" "\<not> has_key ?d (ustr ''topics'')"
    "\<not> has_key ?d (ustr ''emotional_tone'')"
    by (simp_all add: has_key_def)
  have c: "clean_response ?raw = ?raw" by (simp add: eval_defs)
  have n: "json_loads ?e ?raw = Inl JSONDecodeError" by (simp add: eval_defs)
  have h12: "clean_response ?raw = ?body \<or> json_loads ?e (clean_response ?raw) = Inl JSONDecodeError"
    unfolding c using n by blast
  from interpret_fills_missing[OF h1 h2 h3 h4 h5 h6 k h12] h1 h2 h3 h6 n c
  show ?thesis by simp
qed

text \<open>
  As the claim states it, for every text that contains such an object, it fails: the
  object inside an array is valid JSON as a whole, the value is a list, and the result is
  the error record.
\<close>

theorem interpret_object_in_array_counterexample:
  \<open>json_loads (default_env (\<lambda>n t. Inr []))
       (ustr ''{"sentiment": "positive", "score": 1, "key_phrases": []}'')
     = Inr (PDict [(ustr ''sentiment'', PStr (ustr ''positive'')), (ustr ''score'', PInt 1),
                   (ustr ''key_phrases'', PList [])])
   \<and> interpret_response (default_env (\<lambda>n t. Inr []))
       (ustr ''[{"sentiment": "positive", "score": 1, "key_phrases": []}]'')
     = Inr (PDict [(ustr ''sentiment'', PStr (ustr ''error'')), (ustr ''score'', PFloat (ustr ''0.0'')),
                   (ustr ''key_phrases'', PList []), (ustr ''topics'', PList []),
                   (ustr ''emotional_tone'', PList []),
                   (ustr ''error'', PStr (ustr ''list indices must be integers or slices, not str''))])\<close>
  by (simp add: eval_defs)

lemma default_record:
  "fill_required required_fields create_default_result = Inr create_default_result"
  by (simp add: create_default_result_def required_fields_def has_key_def)

text \<open>
  C2, amended: a raw text with no brace pair, whose cleaned form (lines 116 to 126)
  \<open>json.loads\<close> rejects with \<open>JSONDecodeError\<close> and whose diagnostic line (line 147)
  standard output writes, yields the default record, without an error field. The
  witness has a \<open>}\<close> before a \<open>{\<close>.
\<close>

theorem interpret_no_braces:
  assumes "\<not> has_brace_pair raw"
    and "json_loads e (clean_response raw) = Inl JSONDecodeError"
    and "py_print e (ustr ''No JSON found in response: '' @ take 100 (clean_response raw)
                      @ ustr ''...'') = Inr ()"
  shows "interpret_response e raw =
         Inr (PDict [(ustr ''sentiment'', PStr (ustr ''unknown'')),
                     (ustr ''score'', PFloat (ustr ''0.0'')),
                     (ustr ''key_phrases'', PList []),
                     (ustr ''topics'', PList []),
                     (ustr ''emotional_tone'', PList [])])"
proof -
  have "\<not> has_brace_pair (clean_response raw)"
    using assms(1) has_brace_pair_part_of[OF part_of_clean_response] by blast
  then have "\<not> (0 \<le> find (clean_response raw) 123 \<and>
                find (clean_response raw) 123 < rfind (clean_response raw) 125 + 1)"
    using extraction_has_brace_pair by blast
  with assms(2,3) have "extract_result e (clean_response raw) = Inr create_default_result"
    by (auto simp: extract_result_def Let_def)
  with default_record show ?thesis
    by (simp add: interpret_response_def parse_response_def create_default_result_def)
qed

theorem interpret_no_braces_witness:
  "\<not> has_brace_pair (ustr ''I think this comment is } positive { overall'')
   \<and> json_loads (default_env (\<lambda>n t. Inr []))
        (clean_response (ustr ''I think this comment is } positive { overall'')) = Inl JSONDecodeError
   \<and> py_print (default_env (\<lambda>n t. Inr []))
        (ustr ''No JSON found in response: ''
           @ take 100 (clean_response (ustr ''I think this comment is } positive { overall''))
           @ ustr ''...'') = Inr ()
   \<and> interpret_response (default_env (\<lambda>n t. Inr []))
        (ustr ''I think this comment is } positive { overall'') =
         Inr (PDict [(ustr ''sentiment'', PStr (ustr ''unknown'')),
                     (ustr ''score'', PFloat (ustr ''0.0'')),
                     (ustr ''key_phrases'', PList []),
                     (ustr ''topics'', PList []),
                     (ustr ''emotional_tone'', PList [])])"
proof -
  let ?e = "default_env (\<lambda>n t. Inr [])"
  let ?raw = "ustr ''I think this comment is } positive { overall''"
  have h1: "\<not> has_brace_pair ?raw" by (simp add: has_brace_pair_def)
  have h2: "json_loads ?e (clean_response ?raw) = Inl JSONDecodeError" by (simp add: eval_defs)
  have h3: "py_print ?e (ustr ''No JSON found in response: '' @ take 100 (clean_response ?raw)
                          @ ustr ''...'') = Inr ()"
    by (simp add: py_print_def default_env_def)
  from interpret_no_braces[OF h1 h2 h3] h1 h2 h3 show ?thesis by blast
qed

text \<open>
  Without the second hypothesis the claim fails: \<open>123\<close> has no brace, parses as a number,
  and the test \<open>field not in result\<close> raises; the handler returns the error record.
\<close>

theorem interpret_number_counterexample:
  "\<not> has_brace_pair (ustr ''123'')
   \<and> interpret_response (default_env (\<lambda>n t. Inr [])) (ustr ''123'') =
         Inr (PDict [(ustr ''sentiment'', PStr (ustr ''error'')),
                     (ustr ''score'', PFloat (ustr ''0.0'')),
                     (ustr ''key_phrases'', PList []),
                     (ustr ''topics'', PList []),
                     (ustr ''emotional_tone'', PList []),
                     (ustr ''error'', PStr (ustr ''argument of type 'int' is not iterable''))])"
  by (simp add: has_brace_pair_def eval_defs)

text \<open>
  C10: a response that is valid JSON but not an object does not always end in the error
  record. The test \<open>field not in result\<close> is an element test on a list: the array of the
  five field names passes all five tests, nothing is assigned, and \<open>analyze_comment\<close>
  returns the list itself where its signature promises a dictionary.
\<close>

theorem analyze_comment_returns_list:
  \<open>fst (analyze_comment
          (default_env (\<lambda>n t. Inr (ustr ''["sentiment", "score", "key_phrases", "topics", "emotional_tone"]'')))
          (PStr (ustr ''nice video'')) \<lparr>heap = [], calls = 0, draws = 0, slept = []\<rparr>)
     = Inr (PList [PStr (ustr ''sentiment''), PStr (ustr ''score''), PStr (ustr ''key_phrases''),
                   PStr (ustr ''topics''), PStr (ustr ''emotional_tone'')])\<close>
  by (simp add: analyze_comment_def eval_defs)

lemma strip_snoc_space:
  assumes "isspace b" shows "strip (t @ [b]) = strip t"
proof (cases "\<forall>x\<in>set t. isspace x")
  case True
  have a: "dropWhile isspace t = []" using True by simp
  have b: "dropWhile isspace (t @ [b]) = []" using True assms by simp
  show ?thesis by (simp only: strip_def lstrip_def rstrip_def a b)
next
  case False
  have "dropWhile isspace (t @ [b]) = dropWhile isspace t @ [b]"
    using False by (auto simp: dropWhile_append)
  with assms show ?thesis by (simp add: strip_def lstrip_def rstrip_def)
qed

lemma strip_Cons_space: "isspace a \<Longrightarrow> strip (a # t) = strip t"
  by (simp add: strip_def lstrip_def)

lemma strip_fence_body: "strip ([10] @ t @ [10]) = strip t"
proof -
  have sp: "isspace 10" by (simp add: isspace_def)
  have "strip ([10] @ t @ [10]) = strip (10 # (t @ [10]))" by simp
  also have "\<dots> = strip (t @ [10])" by (rule strip_Cons_space[OF sp])
  also have "\<dots> = strip t" by (rule strip_snoc_space[OF sp])
  finally show ?thesis .
qed

lemma strip_fence: "strip (fence hint t) = fence hint t"
proof -
  have "fence hint t \<noteq> []" "hd (fence hint t) = 96" "last (fence hint t) = 96"
    by (simp_all add: fence_def)
  moreover have "\<not> isspace 96" by (simp add: isspace_def)
  ultimately show ?thesis using strip_id[of "fence hint t"] by simp
qed

lemma endswith_append_same: "endswith (x @ p) p"
  by (simp add: endswith_def)

lemma clean_response_fence:
  assumes "hint = [] \<or> hint = ustr ''json''"
  shows "clean_response (fence hint t) = strip t"
proof -
  define body where "body = [10] @ t @ [10] @ ustr ''```''"
  have e: "endswith body (ustr ''```'')"
    using endswith_append_same[of "[10] @ t @ [10]" "ustr ''```''"] by (simp add: body_def)
  have tk: "take (length body - 3) body = [10] @ t @ [10]" by (simp add: body_def)
  have ns: "\<not> startswith body (ustr ''```'')" by (simp add: body_def startswith_simps)
  from assms show ?thesis
  proof
    assume h: "hint = []"
    have f: "fence hint t = ustr ''```'' @ body" by (simp add: fence_def body_def h)
    have 1: "\<not> startswith (ustr ''```'' @ body) (ustr ''```json'')"
      by (simp add: body_def startswith_simps)
    have 2: "startswith (ustr ''```'' @ body) (ustr ''```'')" by (simp add: startswith_simps)
    have 3: "drop 3 (ustr ''```'' @ body) = body" by simp
    show ?thesis
      unfolding clean_response_def strip_fence unfolding f Let_def
      using 1 2 e by (simp only: if_True if_False 3 tk strip_fence_body)
  next
    assume h: "hint = ustr ''json''"
    have f: "fence hint t = ustr ''```json'' @ body" by (simp add: fence_def body_def h)
    have 1: "startswith (ustr ''```json'' @ body) (ustr ''```json'')"
      by (simp add: startswith_simps)
    have 3: "drop 7 (ustr ''```json'' @ body) = body" by simp
    show ?thesis
      unfolding clean_response_def strip_fence unfolding f Let_def
      using 1 ns e by (simp only: if_True if_False 3 tk strip_fence_body)
  qed
qed

text \<open>
  C4, amended: for a text whose trimmed form neither starts nor ends with a fence,
  wrapping it in a fenced block with the hint \<open>json\<close> or with no hint does not change the
  result of the interpreter.
\<close>

theorem interpret_fenced:
  assumes "\<not> startswith (strip t) (ustr ''```'')" "\<not> endswith (strip t) (ustr ''```'')"
    and "hint = [] \<or> hint = ustr ''json''"
  shows "interpret_response e (fence hint t) = interpret_response e t"
  by (simp add: interpret_response_def parse_response_def clean_response_fence[OF assms(3)]
      clean_response_no_fence[OF assms(1,2)])

theorem interpret_fenced_witness:
  \<open>\<not> startswith (strip (ustr ''{"sentiment": "positive", "score": 0.5}'')) (ustr ''```'')
   \<and> \<not> endswith (strip (ustr ''{"sentiment": "positive", "score": 0.5}'')) (ustr ''```'')
   \<and> interpret_response (default_env (\<lambda>n t. Inr []))
         (fence (ustr ''json'') (ustr ''{"sentiment": "positive", "score": 0.5}''))
       = interpret_response (default_env (\<lambda>n t. Inr [])) (ustr ''{"sentiment": "positive", "score": 0.5}'')
   \<and> interpret_response (default_env (\<lambda>n t. Inr []))
         (fence [] (ustr ''{"sentiment": "positive", "score": 0.5}''))
       = interpret_response (default_env (\<lambda>n t. Inr [])) (ustr ''{"sentiment": "positive", "score": 0.5}'')\<close>
proof -
  let ?t = \<open>ustr ''{"sentiment": "positive", "score": 0.5}''\<close>
  have h1: "\<not> startswith (strip ?t) (ustr ''```'')" by (simp add: eval_defs)
  have h2: "\<not> endswith (strip ?t) (ustr ''```'')" by (simp add: eval_defs)
  from interpret_fenced[OF h1 h2, of "ustr ''json''"] interpret_fenced[OF h1 h2, of "[]"] h1 h2
  show ?thesis by simp
qed

text \<open>
  Both restrictions are needed. A text that carries a fence of its own loses it when read
  alone and keeps it inside the wrapper; and only the hint \<open>json\<close> is removed, so with the
  hint \<open>python\<close> the array \<open>[1]\<close> is no longer valid JSON as a whole.
\<close>

theorem interpret_fenced_counterexample:
  "interpret_response (default_env (\<lambda>n t. Inr [])) (fence (ustr ''json'') (ustr ''```1```'')) =
     Inr (PDict [(ustr ''sentiment'', PStr (ustr ''unknown'')), (ustr ''score'', PFloat (ustr ''0.0'')),
            (ustr ''key_phrases'', PList []), (ustr ''topics'', PList []),
            (ustr ''emotional_tone'', PList [])])
   \<and> interpret_response (default_env (\<lambda>n t. Inr [])) (ustr ''```1```'') =
     Inr (PDict [(ustr ''sentiment'', PStr (ustr ''error'')), (ustr ''score'', PFloat (ustr ''0.0'')),
            (ustr ''key_phrases'', PList []), (ustr ''topics'', PList []),
            (ustr ''emotional_tone'', PList []),
            (ustr ''error'', PStr (ustr ''argument of type 'int' is not iterable''))])
   \<and> interpret_response (default_env (\<lambda>n t. Inr [])) (fence (ustr ''python'') (ustr ''[1]'')) =
     Inr (PDict [(ustr ''sentiment'', PStr (ustr ''unknown'')), (ustr ''score'', PFloat (ustr ''0.0'')),
            (ustr ''key_phrases'', PList []), (ustr ''topics'', PList []),
            (ustr ''emotional_tone'', PList [])])
   \<and> interpret_response (default_env (\<lambda>n t. Inr [])) (ustr ''[1]'') =
     Inr (PDict [(ustr ''sentiment'', PStr (ustr ''error'')), (ustr ''score'', PFloat (ustr ''0.0'')),
            (ustr ''key_phrases'', PList []), (ustr ''topics'', PList []),
            (ustr ''emotional_tone'', PList []),
            (ustr ''error'', PStr (ustr ''list indices must be integers or slices, not str''))])"
  by (simp add: fence_def eval_defs)

end
